theory Spec2Isabelle
  imports Complex_Main "HOL-Library.Multiset"
begin

section \<open>Values and errors of the JavaScript runtime\<close>

text \<open>
  An exception is a value. \<open>Error msg\<close> is \<^verbatim>\<open>new Error(msg)\<close>; the other constructors are
  errors raised by the runtime or by the database driver, whose message text is not modelled:
  \<open>TypeError\<close> (a property read on \<^verbatim>\<open>undefined\<close> or \<^verbatim>\<open>null\<close>), \<open>RangeError\<close>
  (\<^verbatim>\<open>toISOString\<close> of an invalid date), \<open>SyntaxError\<close> (a body that is not JSON) and
  \<open>DuplicateEntry\<close> (a write refused by a UNIQUE key).
\<close>

datatype js_error = Error string | TypeError | RangeError | SyntaxError | DuplicateEntry

text \<open>
  A JSON number is a \<open>real\<close>: the handlers compare prices with 0, subtract and divide
  them, and take the floor of a timestamp; rounding of doubles is not modelled. An element
  read from a JSON array is a number, \<^verbatim>\<open>null\<close>, or \<^verbatim>\<open>undefined\<close> when the index is
  past the end.
\<close>

datatype jsval = Undefined | Null | Num real

definition at_index :: "jsval list \<Rightarrow> nat \<Rightarrow> jsval" where
  "at_index xs i = (if i < length xs then xs ! i else Undefined)"

fun truthy :: "jsval \<Rightarrow> bool" where
  "truthy (Num r) = (r \<noteq> 0)"
| "truthy Null = False"
| "truthy Undefined = False"

text \<open>\<^verbatim>\<open>v || 0\<close> on an array element.\<close>

definition or_zero :: "jsval \<Rightarrow> real" where
  "or_zero v = (if truthy v then (case v of Num r \<Rightarrow> r | _ \<Rightarrow> 0) else 0)"

text \<open>
  \<^verbatim>\<open>a || b\<close> where \<open>a\<close> is an optional numeric property of an object (\<open>None\<close> when the
  property is absent or \<^verbatim>\<open>null\<close>) and \<open>b\<close> is a number.
\<close>

definition or_else :: "real option \<Rightarrow> real \<Rightarrow> real" where
  "or_else a b = (case a of Some r \<Rightarrow> if r \<noteq> 0 then r else b | None \<Rightarrow> b)"

subsection \<open>Decimal strings\<close>

definition digit_char :: "nat \<Rightarrow> char" where
  "digit_char d = ''0123456789'' ! d"

fun nat_to_string :: "nat \<Rightarrow> string" where
  "nat_to_string n =
     (if n < 10 then [digit_char n]
      else nat_to_string (n div 10) @ [digit_char (n mod 10)])"

declare nat_to_string.simps [simp del]

text \<open>\<^verbatim>\<open>String(k)\<close> for an integer-valued number below \<open>10^21\<close> in absolute value.\<close>

definition String_num :: "int \<Rightarrow> string" where
  "String_num k =
     (if k < 0 then CHR ''-'' # nat_to_string (nat (- k)) else nat_to_string (nat k))"

definition is_digit :: "char \<Rightarrow> bool" where
  "is_digit c = (c \<in> set ''0123456789'')"

text \<open>The regular expression \<^verbatim>\<open>/^\d{7}$/\<close>: \<open>match_digits n\<close> is \<^verbatim>\<open>^\d{n}$\<close>.\<close>

fun match_digits :: "nat \<Rightarrow> string \<Rightarrow> bool" where
  "match_digits 0 s = (s = [])"
| "match_digits (Suc n) [] = False"
| "match_digits (Suc n) (c # cs) = (is_digit c \<and> match_digits n cs)"

definition uid_regex_test :: "string \<Rightarrow> bool" where
  "uid_regex_test s = match_digits 7 s"

text \<open>The numeric value of a string of decimal digits, to state what a UID denotes.\<close>

definition parse_decimal :: "string \<Rightarrow> nat" where
  "parse_decimal s = foldl (\<lambda>acc c. acc * 10 + (of_char c - 48)) 0 s"

section \<open>models/User.js: the UID allocator and the UID update\<close>

subsection \<open>generateUniqueUID\<close>

text \<open>
  \<^verbatim>\<open>String(Math.floor(Math.random() * 9000000) + 1000000)\<close>, for the value \<open>r\<close> that
  \<^verbatim>\<open>Math.random()\<close> returned.
\<close>

definition draw_uid :: "real \<Rightarrow> string" where
  "draw_uid r = String_num (\<lfloor>r * 9000000\<rfloor> + 1000000)"

definition maxAttempts :: nat where
  "maxAttempts = 100"

text \<open>
  The \<^verbatim>\<open>while (exists && attempts < maxAttempts)\<close> loop, on its three variables.
  \<open>random i\<close> is what the call of \<^verbatim>\<open>Math.random()\<close> in iteration \<open>i\<close> returns (one call
  per iteration, and \<open>attempts\<close> counts the iterations); \<open>query u\<close> is the list of rows
  that \<^verbatim>\<open>SELECT 1 FROM users WHERE uid = ? LIMIT 1\<close> returns for \<open>u\<close>. The variable
  \<open>uid\<close> is \<open>None\<close> while it is \<^verbatim>\<open>undefined\<close>.
\<close>

function generateUniqueUID_loop ::
  "(nat \<Rightarrow> real) \<Rightarrow> (string \<Rightarrow> 'r list) \<Rightarrow> string option \<Rightarrow> bool \<Rightarrow> nat
     \<Rightarrow> string option \<times> bool \<times> nat" where
  "generateUniqueUID_loop random query uid exists attempts =
     (if exists \<and> attempts < maxAttempts then
        (let uid' = draw_uid (random attempts);
             rows = query uid'
         in generateUniqueUID_loop random query (Some uid') (0 < length rows) (attempts + 1))
      else (uid, exists, attempts))"
  by pat_completeness auto
termination
  by (relation "measure (\<lambda>(random, query, uid, exists, attempts). maxAttempts - attempts)") auto

declare generateUniqueUID_loop.simps [simp del]

definition generateUniqueUID ::
  "(nat \<Rightarrow> real) \<Rightarrow> (string \<Rightarrow> 'r list) \<Rightarrow> js_error + string option" where
  "generateUniqueUID random query =
     (case generateUniqueUID_loop random query None True 0 of
        (uid, exists, attempts) \<Rightarrow>
          if attempts \<ge> maxAttempts then Inl (Error ''Failed to generate unique UID'')
          else Inr uid)"

subsection \<open>The users table\<close>

text \<open>
  A row of \<^verbatim>\<open>users\<close>, with the columns the UID operations read or write. The schema makes
  \<^verbatim>\<open>id\<close> the primary key and the migration that adds \<^verbatim>\<open>uid\<close> declares it
  \<^verbatim>\<open>VARCHAR(7) NULL UNIQUE\<close>; \<open>users_table_ok\<close> states both keys. String equality stands
  for the column's collation.
\<close>

record user_row =
  row_id :: nat
  row_username :: string
  row_uid :: "string option"
  row_deleted_at :: "nat option"



text \<open>\<^verbatim>\<open>SELECT 1 FROM users WHERE uid = ? LIMIT 1\<close>, the query of the allocator.\<close>

definition select_uid_rows :: "user_row list \<Rightarrow> string \<Rightarrow> user_row list" where
  "select_uid_rows db u = take 1 (filter (\<lambda>r. row_uid r = Some u) db)"




subsection \<open>updateUserUID\<close>


section \<open>routes/stock.js: the market data proxy\<close>

subsection \<open>The upstream payload and the replies\<close>

text \<open>
  The JSON body of the equity provider. A property that is absent or \<^verbatim>\<open>null\<close> is
  \<open>None\<close>. The elements of \<^verbatim>\<open>timestamp\<close> are numbers; the elements of the price and
  volume arrays are numbers or \<^verbatim>\<open>null\<close>.
\<close>

record meta_obj =
  regularMarketPrice :: "real option"
  currentPrice :: "real option"
  previousClose :: "real option"
  regularMarketTime :: "real option"
  marketState :: "string option"
  regularMarketDayHigh :: "real option"
  dayHigh :: "real option"
  regularMarketDayLow :: "real option"
  dayLow :: "real option"
  regularMarketVolume :: "real option"
  volume :: "real option"

record quote_obj =
  q_open :: "jsval list option"
  q_high :: "jsval list option"
  q_low :: "jsval list option"
  q_close :: "jsval list option"
  q_volume :: "jsval list option"

record indicators_obj =
  quote :: "quote_obj list option"

record result_obj =
  meta :: "meta_obj option"
  timestamp :: "real list option"
  indicators :: "indicators_obj option"

record chart_obj =
  result :: "result_obj list option"

record data_obj =
  chart :: "chart_obj option"

text \<open>
  What \<^verbatim>\<open>await fetch(url, ...)\<close> and \<^verbatim>\<open>await response.json()\<close> give: the fetch is
  rejected with an error, or there is a response with a status and a body that is JSON
  (\<open>Inr\<close>) or not (\<open>Inl\<close>, the error \<^verbatim>\<open>response.json()\<close> is rejected with).
\<close>

datatype fetched = FetchRejected js_error | Responded nat "js_error + data_obj"

definition response_ok :: "nat \<Rightarrow> bool" where
  "response_ok status = (200 \<le> status \<and> status \<le> 299)"

text \<open>
  The reply of a handler: a returned payload (status 200), \<^verbatim>\<open>reply.code(404).send({error: msg})\<close>,
  or \<^verbatim>\<open>reply.code(500).send({error: error.message})\<close> for a caught error.
\<close>

datatype 'a reply = Sent200 'a | Sent404 string | Sent500 js_error

fun reply_code :: "'a reply \<Rightarrow> nat" where
  "reply_code (Sent200 x) = 200"
| "reply_code (Sent404 msg) = 404"
| "reply_code (Sent500 e) = 500"

text \<open>
  Both equity handlers start with the same statements (lines 16 to 35 and 76 to 95): the status
  check, the parse of the body, the test of \<^verbatim>\<open>data.chart.result\<close> and the read of its
  first element. \<open>Inl\<close> is the reply that ends the request there.
\<close>

definition first_result :: "fetched \<Rightarrow> 'a reply + result_obj" where
  "first_result f =
     (case f of
        FetchRejected e \<Rightarrow> Inl (Sent500 e)
      | Responded status body \<Rightarrow>
          if \<not> response_ok status
          then Inl (Sent500 (Error (''HTTP error! status: '' @ nat_to_string status)))
          else
            (case body of
               Inl e \<Rightarrow> Inl (Sent500 e)
             | Inr data \<Rightarrow>
                 (case chart data of
                    None \<Rightarrow> Inl (Sent404 ''No data found'')
                  | Some c \<Rightarrow>
                      (case result c of
                         None \<Rightarrow> Inl (Sent404 ''No data found'')
                       | Some [] \<Rightarrow> Inl (Sent404 ''No data found'')
                       | Some (r # rs) \<Rightarrow> Inr r))))"

subsection \<open>GET /stock/price/:symbol\<close>

text \<open>
  The quote snapshot. \<open>marketTime\<close> is the instant, in milliseconds since the epoch, whose
  ISO string is sent; \<^verbatim>\<open>priceString\<close> (\<^verbatim>\<open>price.toFixed(2)\<close>, which cannot fail) is left out.
\<close>

record snapshot =
  price :: real
  priceChange :: real
  priceChangePercent :: real
  high24h :: real
  low24h :: real
  volume24h :: real
  marketTime :: int
  isMarketOpen :: bool

definition quote_price :: "meta_obj \<Rightarrow> real" where
  "quote_price m =
     or_else (regularMarketPrice m) (or_else (currentPrice m) (or_else (previousClose m) 0))"

definition quote_previousClose :: "meta_obj \<Rightarrow> real" where
  "quote_previousClose m = or_else (previousClose m) (quote_price m)"

definition quote_change :: "meta_obj \<Rightarrow> real" where
  "quote_change m = quote_price m - quote_previousClose m"

definition quote_changePercent :: "meta_obj \<Rightarrow> real" where
  "quote_changePercent m =
     (if quote_previousClose m > 0 then (quote_change m / quote_previousClose m) * 100 else 0)"

text \<open>
  \<^verbatim>\<open>new Date(meta.regularMarketTime * 1000)\<close> when the field is truthy, else the current time
  \<open>now\<close>. A time value beyond \<open>8.64e15\<close> ms makes the date invalid, and \<^verbatim>\<open>toISOString\<close>
  throws on it; a valid one is truncated towards zero.
\<close>

definition quote_marketTime :: "int \<Rightarrow> meta_obj \<Rightarrow> js_error + int" where
  "quote_marketTime now m =
     (case regularMarketTime m of
        None \<Rightarrow> Inr now
      | Some t \<Rightarrow>
          if t = 0 then Inr now
          else if \<bar>t * 1000\<bar> > 8640000000000000 then Inl RangeError
          else Inr (if t * 1000 < 0 then \<lceil>t * 1000\<rceil> else \<lfloor>t * 1000\<rfloor>))"

definition quote_isMarketOpen :: "meta_obj \<Rightarrow> bool" where
  "quote_isMarketOpen m =
     (marketState m = Some ''REGULAR'' \<or> marketState m = Some ''PRE''
      \<or> marketState m = Some ''POST'')"

definition stock_price :: "int \<Rightarrow> fetched \<Rightarrow> snapshot reply" where
  "stock_price now f =
     (case first_result f of
        Inl r \<Rightarrow> r
      | Inr res \<Rightarrow>
          (case meta res of
             None \<Rightarrow> Sent500 TypeError
           | Some m \<Rightarrow>
               (case quote_marketTime now m of
                  Inl e \<Rightarrow> Sent500 e
                | Inr mt \<Rightarrow>
                    Sent200 \<lparr>price = quote_price m,
                      priceChange = quote_change m,
                      priceChangePercent = quote_changePercent m,
                      high24h = or_else (regularMarketDayHigh m) (or_else (dayHigh m) (quote_price m)),
                      low24h = or_else (regularMarketDayLow m) (or_else (dayLow m) (quote_price m)),
                      volume24h = or_else (regularMarketVolume m) (or_else (volume m) 0),
                      marketTime = mt,
                      isMarketOpen = quote_isMarketOpen m\<rparr>)))"

subsection \<open>GET /stock/chart/:symbol\<close>

record candle =
  c_time :: int
  c_open :: real
  c_high :: real
  c_low :: real
  c_close :: real
  c_volume :: real

text \<open>Lines 107 to 115: the candle time of an upstream timestamp.\<close>

definition candle_time :: "real \<Rightarrow> int" where
  "candle_time t = (if t > 1000000000000 then \<lfloor>t / 1000\<rfloor> else \<lfloor>t\<rfloor>)"

text \<open>
  The \<^verbatim>\<open>for\<close> loop of lines 104 to 133, on the index \<open>i\<close> and the array \<open>candles\<close>.
  An index read on a price array that is absent throws.
\<close>

function candle_loop ::
  "real list \<Rightarrow> quote_obj \<Rightarrow> nat \<Rightarrow> candle list \<Rightarrow> js_error + candle list" where
  "candle_loop timestamps q i candles =
     (if i < length timestamps then
        (case (q_open q, q_high q, q_low q, q_close q, q_volume q) of
           (Some os, Some hs, Some ls, Some cs, Some vs) \<Rightarrow>
             (let time = candle_time (timestamps ! i);
                  opn = or_zero (at_index os i);
                  high = or_zero (at_index hs i);
                  low = or_zero (at_index ls i);
                  close = or_zero (at_index cs i);
                  vol = or_zero (at_index vs i)
              in candle_loop timestamps q (i + 1)
                   (if opn > 0 \<and> high > 0 \<and> low > 0 \<and> close > 0
                    then candles @ [\<lparr>c_time = time, c_open = opn, c_high = high, c_low = low,
                                       c_close = close, c_volume = vol\<rparr>]
                    else candles))
         | _ \<Rightarrow> Inl TypeError)
      else Inr candles)"
  by pat_completeness auto
termination
  by (relation "measure (\<lambda>(timestamps, q, i, candles). length timestamps - i)") auto

declare candle_loop.simps [simp del]

text \<open>
  \<^verbatim>\<open>candles.sort((a, b) => a.time - b.time)\<close>: the sort of an array is stable, and the
  times are integers, so it is the stable sort by the key \<open>c_time\<close>.
\<close>

definition sort_candles :: "candle list \<Rightarrow> candle list" where
  "sort_candles candles = sort_key c_time candles"

definition stock_chart :: "fetched \<Rightarrow> candle list reply" where
  "stock_chart f =
     (case first_result f of
        Inl r \<Rightarrow> r
      | Inr res \<Rightarrow>
          (let timestamps = (case timestamp res of Some ts \<Rightarrow> ts | None \<Rightarrow> []) in
           case indicators res of
             None \<Rightarrow> Sent500 TypeError
           | Some ind \<Rightarrow>
               (case quote ind of
                  None \<Rightarrow> Sent500 TypeError
                | Some [] \<Rightarrow> Sent404 ''No quote data found''
                | Some (q # qs) \<Rightarrow>
                    (case q_open q of
                       None \<Rightarrow> Sent404 ''No quote data found''
                     | Some os \<Rightarrow>
                         if length os = 0 then Sent404 ''No quote data found''
                         else
                           (case candle_loop timestamps q 0 [] of
                              Inl e \<Rightarrow> Sent500 e
                            | Inr candles \<Rightarrow> Sent200 (sort_candles candles))))))"

subsection \<open>GET /futures/chart/:symbol\<close>

definition cryptoFutures :: "string list" where
  "cryptoFutures = [''BTC'', ''ETH'', ''XRP'', ''BNB'', ''SOL'', ''ADA'', ''DOGE'', ''DOT'']"

definition futuresSymbol :: "string \<Rightarrow> string" where
  "futuresSymbol symbol = (if List.member cryptoFutures symbol then symbol @ ''USDT'' else symbol)"

definition binanceInterval :: "string \<Rightarrow> string" where
  "binanceInterval interval =
     (if interval = ''1m'' then ''1m'' else if interval = ''5m'' then ''5m''
      else if interval = ''15m'' then ''15m'' else if interval = ''1h'' then ''1h'' else ''1d'')"

text \<open>The URL the futures handler fetches; \<open>limit\<close> is the query value as text.\<close>

definition futures_url :: "string \<Rightarrow> string \<Rightarrow> string \<Rightarrow> string" where
  "futures_url symbol interval limit =
     ''https://fapi.binance.com/fapi/v1/klines?symbol='' @ futuresSymbol symbol
       @ ''&interval='' @ binanceInterval interval @ ''&limit='' @ limit"

subsection \<open>Rows of the upstream arrays, to state what the chart handler emits\<close>

text \<open>
  \<open>positive_at xs i\<close>: the array has a strictly positive number at index \<open>i\<close> (not
  \<^verbatim>\<open>null\<close>, and \<open>i\<close> is not past its end). \<open>number_at xs i\<close>: that number, 0 when there
  is none.
\<close>

definition positive_at :: "jsval list \<Rightarrow> nat \<Rightarrow> bool" where
  "positive_at xs i = (i < length xs \<and> (case xs ! i of Num r \<Rightarrow> 0 < r | _ \<Rightarrow> False))"

definition number_at :: "jsval list \<Rightarrow> nat \<Rightarrow> real" where
  "number_at xs i = (if i < length xs then (case xs ! i of Num r \<Rightarrow> r | _ \<Rightarrow> 0) else 0)"

definition row_priced ::
  "jsval list \<Rightarrow> jsval list \<Rightarrow> jsval list \<Rightarrow> jsval list \<Rightarrow> nat \<Rightarrow> bool" where
  "row_priced os hs ls cs i =
     (positive_at os i \<and> positive_at hs i \<and> positive_at ls i \<and> positive_at cs i)"

definition row_candle ::
  "real list \<Rightarrow> jsval list \<Rightarrow> jsval list \<Rightarrow> jsval list \<Rightarrow> jsval list \<Rightarrow> jsval list
     \<Rightarrow> nat \<Rightarrow> candle" where
  "row_candle ts os hs ls cs vs i =
     \<lparr>c_time = candle_time (ts ! i), c_open = number_at os i, c_high = number_at hs i,
      c_low = number_at ls i, c_close = number_at cs i, c_volume = number_at vs i\<rparr>"

section \<open>Facts about decimal strings\<close>

lemma is_digit_digit_char: "d < 10 \<Longrightarrow> is_digit (digit_char d)"
  unfolding is_digit_def digit_char_def
  by (auto simp: less_Suc_eq eval_nat_numeral)

lemma of_char_digit_char: "d < 10 \<Longrightarrow> (of_char (digit_char d) :: nat) - 48 = d"
  unfolding digit_char_def
  by (auto simp: less_Suc_eq eval_nat_numeral)

lemma nat_to_string_small: "n < 10 \<Longrightarrow> nat_to_string n = [digit_char n]"
  by (subst nat_to_string.simps) simp

lemma nat_to_string_large:
  "10 \<le> n \<Longrightarrow> nat_to_string n = nat_to_string (n div 10) @ [digit_char (n mod 10)]"
  by (subst nat_to_string.simps) simp

lemma digits_nat_to_string: "list_all is_digit (nat_to_string n)"
proof (induction n rule: nat_to_string.induct)
  case (1 n)
  show ?case
  proof (cases "n < 10")
    case True
    then show ?thesis by (simp add: nat_to_string_small is_digit_digit_char)
  next
    case False
    with 1 show ?thesis by (simp add: nat_to_string_large is_digit_digit_char)
  qed
qed

lemma length_nat_to_string:
  "10 ^ k \<le> n \<Longrightarrow> n < 10 ^ Suc k \<Longrightarrow> length (nat_to_string n) = Suc k"
proof (induction k arbitrary: n)
  case 0
  then show ?case by (simp add: nat_to_string_small)
next
  case (Suc k)
  from Suc.prems have ge: "10 \<le> n"
    by (metis One_nat_def le_trans one_le_numeral one_le_power power_Suc mult.right_neutral mult_le_mono2)
  from Suc.prems have "10 ^ k \<le> n div 10" "n div 10 < 10 ^ Suc k"
    by (simp_all add: less_mult_imp_div_less mult.commute div_le_mono)
  then have "length (nat_to_string (n div 10)) = Suc k" by (rule Suc.IH)
  with ge show ?case by (simp add: nat_to_string_large)
qed

lemma parse_decimal_snoc:
  "parse_decimal (s @ [c]) = parse_decimal s * 10 + (of_char c - 48)"
  by (simp add: parse_decimal_def)

lemma parse_nat_to_string: "parse_decimal (nat_to_string n) = n"
proof (induction n rule: nat_to_string.induct)
  case (1 n)
  show ?case
  proof (cases "n < 10")
    case True
    then show ?thesis
      by (simp add: nat_to_string_small parse_decimal_def of_char_digit_char)
  next
    case False
    with 1 have "parse_decimal (nat_to_string (n div 10)) = n div 10" by simp
    with False show ?thesis
      by (simp add: nat_to_string_large parse_decimal_snoc of_char_digit_char)
  qed
qed

lemma match_digits_iff: "match_digits k s \<longleftrightarrow> length s = k \<and> list_all is_digit s"
  by (induction k s rule: match_digits.induct) auto

section \<open>Facts about the allocation loop\<close>

lemma loop_step:
  "attempts < maxAttempts \<Longrightarrow>
   generateUniqueUID_loop random query uid True attempts =
   generateUniqueUID_loop random query (Some (draw_uid (random attempts)))
     (0 < length (query (draw_uid (random attempts)))) (Suc attempts)"
  by (subst generateUniqueUID_loop.simps) (simp add: Let_def)

lemma loop_stop_found:
  "generateUniqueUID_loop random query uid False attempts = (uid, False, attempts)"
  by (subst generateUniqueUID_loop.simps) simp

lemma loop_stop_budget:
  "maxAttempts \<le> attempts \<Longrightarrow>
   generateUniqueUID_loop random query uid exists attempts = (uid, exists, attempts)"
  by (subst generateUniqueUID_loop.simps) simp

text \<open>The loop started at draw k, when the first free candidate is draw i.\<close>
lemma loop_first_free:
  assumes "k \<le> i" "i < maxAttempts" "query (draw_uid (random i)) = []"
    and "\<And>j. k \<le> j \<Longrightarrow> j < i \<Longrightarrow> query (draw_uid (random j)) \<noteq> []"
  shows "generateUniqueUID_loop random query uid True k =
         (Some (draw_uid (random i)), False, Suc i)"
  using assms
proof (induction "i - k" arbitrary: k uid)
  case 0
  then have "k = i" by simp
  with 0 show ?case by (simp add: loop_step loop_stop_found)
next
  case (Suc d)
  then have lt: "k < i" and km: "k < maxAttempts" by simp_all
  have ne: "query (draw_uid (random k)) \<noteq> []" using Suc.prems(4) [of k] lt by simp
  have "generateUniqueUID_loop random query (Some (draw_uid (random k))) True (Suc k) =
        (Some (draw_uid (random i)), False, Suc i)"
    using Suc.hyps(2) Suc.prems lt by (intro Suc.hyps(1)) auto
  with km ne show ?case by (simp add: loop_step)
qed

lemma loop_none_free:
  assumes "k < maxAttempts"
    and "\<And>j. k \<le> j \<Longrightarrow> j < maxAttempts \<Longrightarrow> query (draw_uid (random j)) \<noteq> []"
  shows "generateUniqueUID_loop random query uid True k =
         (Some (draw_uid (random (maxAttempts - 1))), True, maxAttempts)"
  using assms
proof (induction "maxAttempts - k" arbitrary: k uid)
  case 0
  then show ?case by simp
next
  case (Suc d)
  have ne: "query (draw_uid (random k)) \<noteq> []" using Suc.prems by simp
  show ?case
  proof (cases "Suc k < maxAttempts")
    case True
    have "generateUniqueUID_loop random query (Some (draw_uid (random k))) True (Suc k) =
          (Some (draw_uid (random (maxAttempts - 1))), True, maxAttempts)"
      using Suc.hyps(2) Suc.prems True by (intro Suc.hyps(1)) auto
    with Suc.prems(1) ne show ?thesis by (simp add: loop_step)
  next
    case False
    with Suc.prems(1) have "Suc k = maxAttempts" by simp
    then have "maxAttempts - 1 = k" by simp
    with Suc.prems(1) ne \<open>Suc k = maxAttempts\<close> show ?thesis
      by (simp add: loop_step loop_stop_budget)
  qed
qed

lemma generate_found_early:
  assumes "i < maxAttempts - 1" "query (draw_uid (random i)) = []"
    and "\<And>j. j < i \<Longrightarrow> query (draw_uid (random j)) \<noteq> []"
  shows "generateUniqueUID random query = Inr (Some (draw_uid (random i)))"
proof -
  have "generateUniqueUID_loop random query None True 0 =
        (Some (draw_uid (random i)), False, Suc i)"
    using assms by (intro loop_first_free) auto
  with assms(1) show ?thesis by (simp add: generateUniqueUID_def)
qed

lemma generate_found_last:
  assumes "query (draw_uid (random (maxAttempts - 1))) = []"
    and "\<And>j. j < maxAttempts - 1 \<Longrightarrow> query (draw_uid (random j)) \<noteq> []"
  shows "generateUniqueUID random query = Inl (Error ''Failed to generate unique UID'')"
proof -
  have "generateUniqueUID_loop random query None True 0 =
        (Some (draw_uid (random (maxAttempts - 1))), False, Suc (maxAttempts - 1))"
    using assms by (intro loop_first_free) (auto simp: maxAttempts_def)
  then show ?thesis by (simp add: generateUniqueUID_def maxAttempts_def)
qed

lemma generate_none_free:
  assumes "\<And>j. j < maxAttempts \<Longrightarrow> query (draw_uid (random j)) \<noteq> []"
  shows "generateUniqueUID random query = Inl (Error ''Failed to generate unique UID'')"
proof -
  have "generateUniqueUID_loop random query None True 0 =
        (Some (draw_uid (random (maxAttempts - 1))), True, maxAttempts)"
    using assms by (intro loop_none_free) (auto simp: maxAttempts_def)
  then show ?thesis by (simp add: generateUniqueUID_def)
qed

text \<open>Whatever the loop returns as uid is the start value or one of the draws.\<close>
lemma loop_uid_is_draw:
  "generateUniqueUID_loop random query uid exists attempts = (u, e, a) \<Longrightarrow>
   u = uid \<or> (\<exists>j. u = Some (draw_uid (random j)))"
proof (induction random query uid exists attempts rule: generateUniqueUID_loop.induct)
  case (1 random query uid exists attempts)
  show ?case
  proof (cases "exists \<and> attempts < maxAttempts")
    case True
    with "1.prems" have
      "generateUniqueUID_loop random query (Some (draw_uid (random attempts)))
         (0 < length (query (draw_uid (random attempts)))) (attempts + 1) = (u, e, a)"
      by (subst (asm) generateUniqueUID_loop.simps) (simp add: Let_def)
    with "1.IH" [OF True refl refl] show ?thesis by blast
  next
    case False
    with "1.prems" show ?thesis
      by (subst (asm) generateUniqueUID_loop.simps) simp
  qed
qed

lemma loop_attempts_pos:
  "generateUniqueUID_loop random query uid True attempts = (u, e, a) \<Longrightarrow>
   attempts < maxAttempts \<Longrightarrow> \<exists>j. u = Some (draw_uid (random j))"
  using loop_uid_is_draw [of random query "Some (draw_uid (random attempts))"
      "0 < length (query (draw_uid (random attempts)))" "Suc attempts" u e a]
  by (auto simp: loop_step)

lemma draw_uid_range:
  assumes "0 \<le> r" "r < 1"
  shows "draw_uid r = nat_to_string (nat (\<lfloor>r * 9000000\<rfloor> + 1000000))"
    and "1000000 \<le> nat (\<lfloor>r * 9000000\<rfloor> + 1000000)"
    and "nat (\<lfloor>r * 9000000\<rfloor> + 1000000) \<le> 9999999"
proof -
  from assms have lo: "0 \<le> \<lfloor>r * 9000000\<rfloor>" by simp
  from assms have "r * 9000000 < 9000000" by simp
  then have hi: "\<lfloor>r * 9000000\<rfloor> < 9000000" by (simp add: floor_less_iff)
  from lo have "\<not> \<lfloor>r * 9000000\<rfloor> + 1000000 < 0" by linarith
  then show "draw_uid r = nat_to_string (nat (\<lfloor>r * 9000000\<rfloor> + 1000000))"
    unfolding draw_uid_def String_num_def by (simp only: if_False)
  from lo show "1000000 \<le> nat (\<lfloor>r * 9000000\<rfloor> + 1000000)" by linarith
  from hi show "nat (\<lfloor>r * 9000000\<rfloor> + 1000000) \<le> 9999999" by linarith
qed

lemma draw_uid_shape:
  assumes "0 \<le> r" "r < 1"
  shows "length (draw_uid r) = 7" and "list_all is_digit (draw_uid r)"
    and "1000000 \<le> parse_decimal (draw_uid r)" and "parse_decimal (draw_uid r) \<le> 9999999"
proof -
  let ?n = "nat (\<lfloor>r * 9000000\<rfloor> + 1000000)"
  note d = draw_uid_range [OF assms]
  have "10 ^ 6 \<le> ?n" "?n < 10 ^ Suc 6" using d(2,3) by simp_all
  then have "length (nat_to_string ?n) = Suc 6" by (rule length_nat_to_string)
  then show "length (draw_uid r) = 7" by (simp add: d(1))
  show "list_all is_digit (draw_uid r)" by (simp add: d(1) digits_nat_to_string)
  show "1000000 \<le> parse_decimal (draw_uid r)" using d(2) by (simp add: d(1) parse_nat_to_string)
  show "parse_decimal (draw_uid r) \<le> 9999999" using d(3) by (simp add: d(1) parse_nat_to_string)
qed

section \<open>Facts about the candle loop\<close>

lemma or_zero_at_index: "or_zero (at_index xs i) = number_at xs i"
  by (cases "xs ! i") (auto simp: or_zero_def at_index_def number_at_def)

lemma number_at_pos: "0 < number_at xs i \<longleftrightarrow> positive_at xs i"
  by (cases "xs ! i") (auto simp: number_at_def positive_at_def)

lemma candle_loop_done:
  "length timestamps \<le> i \<Longrightarrow> candle_loop timestamps q i candles = Inr candles"
  by (subst candle_loop.simps) simp

lemma candle_loop_step:
  assumes "q_open q = Some os" "q_high q = Some hs" "q_low q = Some ls" "q_close q = Some cs"
    "q_volume q = Some vs" "i < length timestamps"
  shows "candle_loop timestamps q i candles =
         candle_loop timestamps q (Suc i)
           (if row_priced os hs ls cs i then candles @ [row_candle timestamps os hs ls cs vs i]
            else candles)"
  using assms
  by (subst candle_loop.simps)
     (simp add: Let_def or_zero_at_index number_at_pos row_priced_def row_candle_def)

lemma candle_loop_missing_array:
  assumes "q_open q = None \<or> q_high q = None \<or> q_low q = None \<or> q_close q = None
             \<or> q_volume q = None" "i < length timestamps"
  shows "candle_loop timestamps q i candles = Inl TypeError"
  using assms
  by (subst candle_loop.simps) (auto split: option.splits)

lemma candle_loop_rows:
  assumes "q_open q = Some os" "q_high q = Some hs" "q_low q = Some ls" "q_close q = Some cs"
    "q_volume q = Some vs"
  shows "i \<le> length timestamps \<Longrightarrow>
         candle_loop timestamps q i candles =
         Inr (candles @ map (row_candle timestamps os hs ls cs vs)
                (filter (row_priced os hs ls cs) [i..<length timestamps]))"
proof (induction "length timestamps - i" arbitrary: i candles)
  case 0
  then show ?case by (simp add: candle_loop_done)
next
  case (Suc d)
  then have lt: "i < length timestamps" by simp
  have IH: "\<And>acc. candle_loop timestamps q (Suc i) acc =
         Inr (acc @ map (row_candle timestamps os hs ls cs vs)
                (filter (row_priced os hs ls cs) [Suc i..<length timestamps]))"
    using Suc.hyps(2) lt by (intro Suc.hyps(1)) auto
  show ?case
    by (simp add: candle_loop_step [OF assms lt] IH upt_conv_Cons [OF lt])
qed

section \<open>Facts about the equity handlers\<close>

lemma first_result_ok:
  assumes "response_ok status" "chart data = Some c" "result c = Some (res # rest)"
  shows "first_result (Responded status (Inr data)) = Inr res"
  using assms by (simp add: first_result_def)

lemma stock_chart_ok:
  assumes "response_ok status" "chart data = Some c" "result c = Some (res # rest)"
    and "indicators res = Some ind" "quote ind = Some (q # qs)" "q_open q = Some os" "os \<noteq> []"
  shows "stock_chart (Responded status (Inr data)) =
         (case candle_loop (case timestamp res of Some ts \<Rightarrow> ts | None \<Rightarrow> []) q 0 [] of
            Inl e \<Rightarrow> Sent500 e | Inr candles \<Rightarrow> Sent200 (sort_candles candles))"
  using assms by (simp add: stock_chart_def first_result_def)

lemma first_result_never_200: "first_result f \<noteq> Inl (Sent200 x)"
  by (auto simp: first_result_def split: fetched.splits sum.splits option.splits list.splits)

lemma stock_chart_sent200:
  assumes "stock_chart f = Sent200 candles"
  shows "\<exists>xs. candles = sort_candles xs"
  using assms first_result_never_200 [of f candles]
  by (auto simp: stock_chart_def Let_def split: sum.splits option.splits list.splits if_splits)

lemma candle_time_of_int:
  "candle_time (of_int k) = (if k > 1000000000000 then k div 1000 else k)"
proof -
  have "\<lfloor>(of_int k :: real) / 1000\<rfloor> = k div 1000"
    using floor_divide_of_int_eq [of k 1000, where ?'a = real] by simp
  moreover have "(of_int k :: real) > 1000000000000 \<longleftrightarrow> k > 1000000000000"
    using of_int_less_iff [of 1000000000000 k, where ?'a = real] by simp
  ultimately show ?thesis by (simp add: candle_time_def)
qed

lemma member_cryptoFutures:
  "List.member cryptoFutures s \<longleftrightarrow>
   s \<in> {''BTC'', ''ETH'', ''XRP'', ''BNB'', ''SOL'', ''ADA'', ''DOGE'', ''DOT''}"
  by (auto simp: cryptoFutures_def)

lemma stock_price_ok:
  assumes "response_ok status" "chart data = Some c" "result c = Some (res # rest)"
    and "meta res = Some m" "stock_price now (Responded status (Inr data)) = Sent200 s"
  shows "price s = quote_price m" "priceChange s = quote_change m"
    "priceChangePercent s = quote_changePercent m"
  using assms
  by (auto simp: stock_price_def first_result_def split: sum.splits)

lemma quote_previousClose_given:
  "previousClose m = Some p \<Longrightarrow> p \<noteq> 0 \<Longrightarrow> quote_previousClose m = p"
  by (simp add: quote_previousClose_def or_else_def)

lemma quote_previousClose_missing:
  "previousClose m = None \<Longrightarrow> quote_previousClose m = quote_price m"
  by (simp add: quote_previousClose_def or_else_def)

section \<open>Facts about the users table\<close>






section \<open>The claims\<close>

subsection \<open>C1: the attempt budget of generateUniqueUID\<close>

text \<open>
  Claim C1: generateUniqueUID returns the first drawn candidate that the existence check
  reports free, provided that draw is among the first 100 attempts, and fails exactly when
  none of the 100 draws is free. The loop does stop after at most 100 draws, and fails when
  all of them exist (\<open>generate_none_free\<close>); a candidate found free in draws 1 to 99 is
  returned (\<open>generate_found_early\<close>). A candidate found free in draw 100 is not returned:
  the test after the loop reads \<open>attempts\<close>, which is then 100, and throws
  (\<open>generate_found_last\<close>). Here the table holds the UID \<open>1000000\<close>; the first 99 draws
  give \<open>1000000\<close>, the draw 100 gives \<open>5500000\<close>, which no row holds, and the call fails.
\<close>

theorem generateUniqueUID_hundredth_draw_rejected:
  "generateUniqueUID (\<lambda>i. if i < 99 then 0 else 1 / 2)
     (select_uid_rows
        [\<lparr>row_id = 1, row_username = ''ann'', row_uid = Some ''1000000'', row_deleted_at = None\<rparr>])
     = Inl (Error ''Failed to generate unique UID'')
   \<and> draw_uid 0 = ''1000000'' \<and> draw_uid (1 / 2) = ''5500000''
   \<and> select_uid_rows
        [\<lparr>row_id = 1, row_username = ''ann'', row_uid = Some ''1000000'', row_deleted_at = None\<rparr>]
        ''5500000'' = []"
proof -
  let ?db = "[\<lparr>row_id = 1, row_username = ''ann'', row_uid = Some ''1000000'',
                row_deleted_at = None\<rparr>]"
  have d0: "draw_uid 0 = ''1000000''"
    by (simp add: draw_uid_def String_num_def nat_to_string.simps digit_char_def)
  have d1: "draw_uid (1 / 2) = ''5500000''"
    by (simp add: draw_uid_def String_num_def nat_to_string.simps digit_char_def)
  have free: "select_uid_rows ?db ''5500000'' = []"
    by (simp add: select_uid_rows_def)
  have "generateUniqueUID (\<lambda>i. if i < 99 then 0 else 1 / 2) (select_uid_rows ?db)
     = Inl (Error ''Failed to generate unique UID'')"
    by (rule generate_found_last) (simp_all add: maxAttempts_def d0 d1 select_uid_rows_def)
  with d0 d1 free show ?thesis by simp
qed

subsection \<open>C2: the format of a generated UID\<close>

text \<open>
  Claim C2: whatever the random source (with values in \<open>[0, 1)\<close>, as \<^verbatim>\<open>Math.random()\<close>
  has) and whatever the existence check, a UID that generateUniqueUID returns matches
  \<^verbatim>\<open>^[0-9]{7}$\<close>: it is a string of exactly 7 decimal digits, and its numeric value lies
  between 1000000 and 9999999.
\<close>

theorem generateUniqueUID_seven_digits:
  assumes rnd: "\<forall>i. 0 \<le> random i \<and> random i < 1"
    and ok: "generateUniqueUID random query = Inr v"
  shows "\<exists>s. v = Some s \<and> uid_regex_test s \<and> length s = 7 \<and> list_all is_digit s
           \<and> 1000000 \<le> parse_decimal s \<and> parse_decimal s \<le> 9999999"
proof -
  obtain u e a where run: "generateUniqueUID_loop random query None True 0 = (u, e, a)"
    by (cases "generateUniqueUID_loop random query None True 0") auto
  with ok have v: "v = u" by (simp add: generateUniqueUID_def split: if_splits)
  have "0 < maxAttempts" by (simp add: maxAttempts_def)
  with run obtain j where u: "u = Some (draw_uid (random j))"
    using loop_attempts_pos by blast
  from rnd have r: "0 \<le> random j" "random j < 1" by simp_all
  note sh = draw_uid_shape [OF r]
  have "uid_regex_test (draw_uid (random j))"
    by (simp add: uid_regex_test_def match_digits_iff sh(1,2))
  with sh u v show ?thesis by simp
qed

theorem generateUniqueUID_seven_digits_witness:
  "generateUniqueUID (\<lambda>i. 1 / 2) (\<lambda>u. ([] :: unit list)) = Inr (Some ''5500000'')
   \<and> uid_regex_test ''5500000'' \<and> parse_decimal ''5500000'' = 5500000"
proof -
  have run: "generateUniqueUID (\<lambda>i. 1 / 2) (\<lambda>u. ([] :: unit list)) = Inr (Some (draw_uid (1 / 2)))"
    by (rule generate_found_early [where i = 0]) (simp_all add: maxAttempts_def)
  have d: "draw_uid (1 / 2) = ''5500000''"
    by (simp add: draw_uid_def String_num_def nat_to_string.simps digit_char_def)
  have "\<forall>i::nat. (0::real) \<le> (\<lambda>i. 1 / 2 :: real) i \<and> (\<lambda>i. 1 / 2 :: real) i < 1" by simp
  from generateUniqueUID_seven_digits [OF this run [unfolded d]] run d
  show ?thesis by (simp add: parse_decimal_def)
qed

subsection \<open>C3: the rows the chart handler emits\<close>

text \<open>
  Claim C3: for a payload that has the six arrays, the chart extraction emits a candle for
  index \<open>i\<close> exactly when open, high, low and close at \<open>i\<close> are all strictly positive
  numbers; a \<^verbatim>\<open>null\<close> or missing price counts as 0 and drops the row. The loop returns the
  candles of the priced rows in index order, and the reply holds exactly these candles.
  For the arrays of the specification's example the reply is the candles of rows 0 and 2.
\<close>

theorem stock_chart_emits_priced_rows:
  assumes "response_ok status" "chart data = Some c" "result c = Some (res # rest)"
    and "timestamp res = Some ts" "indicators res = Some ind" "quote ind = Some (q # qs)"
    and "q_open q = Some os" "q_high q = Some hs" "q_low q = Some ls" "q_close q = Some cs"
    and "q_volume q = Some vs" "os \<noteq> []"
  shows "candle_loop ts q 0 [] =
           Inr (map (row_candle ts os hs ls cs vs) (filter (row_priced os hs ls cs) [0..<length ts]))
       \<and> (\<exists>candles. stock_chart (Responded status (Inr data)) = Sent200 candles
            \<and> mset candles =
                mset (map (row_candle ts os hs ls cs vs)
                       (filter (row_priced os hs ls cs) [0..<length ts])))"
proof -
  have loop: "candle_loop ts q 0 [] =
           Inr (map (row_candle ts os hs ls cs vs) (filter (row_priced os hs ls cs) [0..<length ts]))"
    using candle_loop_rows [OF assms(7-11), of 0 ts "[]"] by simp
  have "stock_chart (Responded status (Inr data)) =
        Sent200 (sort_candles (map (row_candle ts os hs ls cs vs)
                   (filter (row_priced os hs ls cs) [0..<length ts])))"
    by (simp add: stock_chart_ok [OF assms(1-3) assms(5-7) assms(12)] assms(4) loop)
  with loop show ?thesis by (simp add: sort_candles_def)
qed

theorem stock_chart_emits_priced_rows_witness:
  "stock_chart (Responded 200 (Inr \<lparr>chart = Some \<lparr>result = Some [\<lparr>meta = None,
       timestamp = Some [100, 200, 300],
       indicators = Some \<lparr>quote = Some [\<lparr>q_open = Some [Num 10, Num 0, Num 30],
         q_high = Some [Num 11, Num 0, Num 31], q_low = Some [Num 9, Num 0, Num 29],
         q_close = Some [Num 10.5, Num 0, Num 30.5],
         q_volume = Some [Num 1, Num 0, Num 3]\<rparr>]\<rparr>\<rparr>]\<rparr>\<rparr>))
   = Sent200 [\<lparr>c_time = 100, c_open = 10, c_high = 11, c_low = 9, c_close = 10.5, c_volume = 1\<rparr>,
              \<lparr>c_time = 300, c_open = 30, c_high = 31, c_low = 29, c_close = 30.5, c_volume = 3\<rparr>]"
proof -
  let ?q = "\<lparr>q_open = Some [Num 10, Num 0, Num 30],
         q_high = Some [Num 11, Num 0, Num 31], q_low = Some [Num 9, Num 0, Num 29],
         q_close = Some [Num 10.5, Num 0, Num 30.5],
         q_volume = Some [Num 1, Num 0, Num 3]\<rparr>"
  let ?ind = "\<lparr>quote = Some [?q]\<rparr>"
  let ?res = "\<lparr>meta = None, timestamp = Some [100, 200, 300], indicators = Some ?ind\<rparr>"
  let ?c = "\<lparr>result = Some [?res]\<rparr>"
  let ?data = "\<lparr>chart = Some ?c\<rparr>"
  have rows: "map (row_candle [100, 200, 300] [Num 10, Num 0, Num 30] [Num 11, Num 0, Num 31]
                 [Num 9, Num 0, Num 29] [Num 10.5, Num 0, Num 30.5] [Num 1, Num 0, Num 3])
            (filter (row_priced [Num 10, Num 0, Num 30] [Num 11, Num 0, Num 31]
                 [Num 9, Num 0, Num 29] [Num 10.5, Num 0, Num 30.5]) [0..<length [100, 200, 300 :: real]])
        = [\<lparr>c_time = 100, c_open = 10, c_high = 11, c_low = 9, c_close = 10.5, c_volume = 1\<rparr>,
           \<lparr>c_time = 300, c_open = 30, c_high = 31, c_low = 29, c_close = 30.5, c_volume = 3\<rparr>]"
    by (simp add: upt_rec row_priced_def positive_at_def row_candle_def number_at_def
          candle_time_def)
  have loop: "candle_loop [100, 200, 300] ?q 0 [] =
        Inr [\<lparr>c_time = 100, c_open = 10, c_high = 11, c_low = 9, c_close = 10.5, c_volume = 1\<rparr>,
             \<lparr>c_time = 300, c_open = 30, c_high = 31, c_low = 29, c_close = 30.5, c_volume = 3\<rparr>]"
    using stock_chart_emits_priced_rows [of 200 ?data ?c ?res "[]" "[100, 200, 300]" ?ind ?q "[]"
        "[Num 10, Num 0, Num 30]" "[Num 11, Num 0, Num 31]" "[Num 9, Num 0, Num 29]"
        "[Num 10.5, Num 0, Num 30.5]" "[Num 1, Num 0, Num 3]"]
    unfolding rows by (simp add: response_ok_def)
  have "stock_chart (Responded 200 (Inr ?data)) =
        (case candle_loop [100, 200, 300] ?q 0 [] of
            Inl e \<Rightarrow> Sent500 e | Inr candles \<Rightarrow> Sent200 (sort_candles candles))"
    using stock_chart_ok [of 200 ?data ?c ?res "[]" ?ind ?q "[]" "[Num 10, Num 0, Num 30]"]
    by (simp add: response_ok_def)
  then show ?thesis unfolding loop by (simp add: sort_candles_def)
qed

subsection \<open>C4: the order of the candles\<close>

text \<open>
  Claim C4: whatever the order of the upstream rows, the candle list that the chart handler
  returns is sorted ascending by time, and sorting it again by time gives the same list.
\<close>

theorem stock_chart_sorted_by_time:
  assumes "stock_chart f = Sent200 candles"
  shows "sorted (map c_time candles) \<and> sort_candles candles = candles"
proof -
  from assms obtain xs where xs: "candles = sort_candles xs"
    using stock_chart_sent200 by blast
  have "sorted (map c_time candles)" by (simp add: xs sort_candles_def)
  moreover from this have "sort_candles candles = candles"
    unfolding sort_candles_def by (rule sort_key_id_if_sorted)
  ultimately show ?thesis by simp
qed

theorem stock_chart_sorted_by_time_witness:
  "stock_chart (Responded 200 (Inr \<lparr>chart = Some \<lparr>result = Some [\<lparr>meta = None,
       timestamp = Some [300, 100, 200],
       indicators = Some \<lparr>quote = Some [\<lparr>q_open = Some [Num 3, Num 1, Num 2],
         q_high = Some [Num 3, Num 1, Num 2], q_low = Some [Num 3, Num 1, Num 2],
         q_close = Some [Num 3, Num 1, Num 2],
         q_volume = Some [Null, Null, Null]\<rparr>]\<rparr>\<rparr>]\<rparr>\<rparr>))
   = Sent200 [\<lparr>c_time = 100, c_open = 1, c_high = 1, c_low = 1, c_close = 1, c_volume = 0\<rparr>,
              \<lparr>c_time = 200, c_open = 2, c_high = 2, c_low = 2, c_close = 2, c_volume = 0\<rparr>,
              \<lparr>c_time = 300, c_open = 3, c_high = 3, c_low = 3, c_close = 3, c_volume = 0\<rparr>]
   \<and> sorted (map c_time
        [\<lparr>c_time = 100, c_open = 1, c_high = 1, c_low = 1, c_close = 1, c_volume = 0\<rparr>,
         \<lparr>c_time = 200, c_open = 2, c_high = 2, c_low = 2, c_close = 2, c_volume = 0\<rparr>,
         \<lparr>c_time = 300, c_open = 3, c_high = 3, c_low = 3, c_close = 3, c_volume = 0\<rparr>])
   \<and> sort_candles
        [\<lparr>c_time = 100, c_open = 1, c_high = 1, c_low = 1, c_close = 1, c_volume = 0\<rparr>,
         \<lparr>c_time = 200, c_open = 2, c_high = 2, c_low = 2, c_close = 2, c_volume = 0\<rparr>,
         \<lparr>c_time = 300, c_open = 3, c_high = 3, c_low = 3, c_close = 3, c_volume = 0\<rparr>]
       = [\<lparr>c_time = 100, c_open = 1, c_high = 1, c_low = 1, c_close = 1, c_volume = 0\<rparr>,
         \<lparr>c_time = 200, c_open = 2, c_high = 2, c_low = 2, c_close = 2, c_volume = 0\<rparr>,
         \<lparr>c_time = 300, c_open = 3, c_high = 3, c_low = 3, c_close = 3, c_volume = 0\<rparr>]"
proof -
  let ?q = "\<lparr>q_open = Some [Num 3, Num 1, Num 2],
         q_high = Some [Num 3, Num 1, Num 2], q_low = Some [Num 3, Num 1, Num 2],
         q_close = Some [Num 3, Num 1, Num 2],
         q_volume = Some [Null, Null, Null]\<rparr>"
  let ?ind = "\<lparr>quote = Some [?q]\<rparr>"
  let ?res = "\<lparr>meta = None, timestamp = Some [300, 100, 200], indicators = Some ?ind\<rparr>"
  let ?c = "\<lparr>result = Some [?res]\<rparr>"
  let ?data = "\<lparr>chart = Some ?c\<rparr>"
  have loop: "candle_loop [300, 100, 200] ?q 0 [] =
        Inr [\<lparr>c_time = 300, c_open = 3, c_high = 3, c_low = 3, c_close = 3, c_volume = 0\<rparr>,
             \<lparr>c_time = 100, c_open = 1, c_high = 1, c_low = 1, c_close = 1, c_volume = 0\<rparr>,
             \<lparr>c_time = 200, c_open = 2, c_high = 2, c_low = 2, c_close = 2, c_volume = 0\<rparr>]"
    using candle_loop_rows [of ?q "[Num 3, Num 1, Num 2]" "[Num 3, Num 1, Num 2]"
        "[Num 3, Num 1, Num 2]" "[Num 3, Num 1, Num 2]" "[Null, Null, Null]" 0 "[300, 100, 200]" "[]"]
    by (simp add: upt_rec row_priced_def positive_at_def row_candle_def number_at_def
          candle_time_def)
  have run: "stock_chart (Responded 200 (Inr ?data)) =
        Sent200 [\<lparr>c_time = 100, c_open = 1, c_high = 1, c_low = 1, c_close = 1, c_volume = 0\<rparr>,
              \<lparr>c_time = 200, c_open = 2, c_high = 2, c_low = 2, c_close = 2, c_volume = 0\<rparr>,
              \<lparr>c_time = 300, c_open = 3, c_high = 3, c_low = 3, c_close = 3, c_volume = 0\<rparr>]"
    using stock_chart_ok [of 200 ?data ?c ?res "[]" ?ind ?q "[]" "[Num 3, Num 1, Num 2]"]
    by (simp add: response_ok_def loop sort_candles_def)
  from stock_chart_sorted_by_time [OF run] run show ?thesis by simp
qed

subsection \<open>C5: seconds and milliseconds\<close>

text \<open>
  Claim C5: a timestamp \<open>t \<ge> 10^12\<close> is taken as milliseconds and gives the candle time
  \<open>\<lfloor>t / 1000\<rfloor>\<close>, any other gives \<open>\<lfloor>t\<rfloor>\<close>. The handler tests \<open>t > 10^12\<close>
  (\<open>candle_time_of_int\<close>), so at \<open>t = 10^12\<close>, the first number of 13 digits, which the
  handler's comments count as milliseconds, the candle time is \<open>10^12\<close> and not \<open>10^9\<close>.
  The two examples of the claim hold.
\<close>

theorem candle_time_at_ten_to_twelve:
  "candle_time 1000000000000 = 1000000000000
   \<and> candle_time 1000000000000 \<noteq> \<lfloor>1000000000000 / (1000 :: real)\<rfloor>
   \<and> candle_time 1700000000000 = 1700000000
   \<and> candle_time 1700000000 = 1700000000"
  by (simp add: candle_time_def)

subsection \<open>C6: the failures of the chart handler\<close>

text \<open>
  Claim C6, as amended: when the upstream status is not a success the chart handler fails
  with a 500 reply whose message is \<open>HTTP error! status: \<close> followed by the status; when the
  status is a success and \<^verbatim>\<open>chart\<close> or \<^verbatim>\<open>chart.result\<close> is absent, or \<^verbatim>\<open>result\<close> is
  empty, the reply is 404 \<open>No data found\<close>; when the first result has an
  \<^verbatim>\<open>indicators.quote\<close> array that is empty, or whose first entry has no \<^verbatim>\<open>open\<close> array or
  an empty one, the reply is 404 \<open>No quote data found\<close>.
\<close>

theorem stock_chart_failures:
  "(\<not> response_ok status \<longrightarrow>
      stock_chart (Responded status body) =
        Sent500 (Error (''HTTP error! status: '' @ nat_to_string status)))
   \<and> (response_ok status \<and>
        (chart data = None \<or> (\<exists>c. chart data = Some c \<and> (result c = None \<or> result c = Some [])))
      \<longrightarrow> stock_chart (Responded status (Inr data)) = Sent404 ''No data found'')
   \<and> (response_ok status \<and> chart data = Some c \<and> result c = Some (res # rest)
        \<and> indicators res = Some ind
        \<and> (quote ind = Some [] \<or>
            (\<exists>q qs. quote ind = Some (q # qs) \<and> (q_open q = None \<or> q_open q = Some [])))
      \<longrightarrow> stock_chart (Responded status (Inr data)) = Sent404 ''No quote data found'')"
  by (auto simp: stock_chart_def first_result_def)

theorem stock_chart_failures_witness:
  "stock_chart (Responded 503 (Inr \<lparr>chart = None\<rparr>)) = Sent500 (Error ''HTTP error! status: 503'')
   \<and> stock_chart (Responded 200 (Inr \<lparr>chart = None\<rparr>)) = Sent404 ''No data found''
   \<and> stock_chart (Responded 200 (Inr \<lparr>chart = Some \<lparr>result = Some []\<rparr>\<rparr>)) = Sent404 ''No data found''
   \<and> stock_chart (Responded 200 (Inr \<lparr>chart = Some \<lparr>result = Some [\<lparr>meta = None,
         timestamp = None, indicators = Some \<lparr>quote = Some []\<rparr>\<rparr>]\<rparr>\<rparr>))
       = Sent404 ''No quote data found''"
proof -
  have s: "nat_to_string 503 = ''503''" by (simp add: nat_to_string.simps digit_char_def)
  have a: "stock_chart (Responded 503 (Inr \<lparr>chart = None\<rparr>)) = Sent500 (Error ''HTTP error! status: 503'')"
    using stock_chart_failures [of 503 "Inr \<lparr>chart = None\<rparr>"] by (simp add: response_ok_def s)
  have b: "stock_chart (Responded 200 (Inr \<lparr>chart = None\<rparr>)) = Sent404 ''No data found''"
    using stock_chart_failures [of 200 _ "\<lparr>chart = None\<rparr>"] by (simp add: response_ok_def)
  have c: "stock_chart (Responded 200 (Inr \<lparr>chart = Some \<lparr>result = Some []\<rparr>\<rparr>)) = Sent404 ''No data found''"
    using stock_chart_failures [of 200 _ "\<lparr>chart = Some \<lparr>result = Some []\<rparr>\<rparr>"]
    by (simp add: response_ok_def)
  have d: "stock_chart (Responded 200 (Inr \<lparr>chart = Some \<lparr>result = Some [\<lparr>meta = None,
         timestamp = None, indicators = Some \<lparr>quote = Some []\<rparr>\<rparr>]\<rparr>\<rparr>))
       = Sent404 ''No quote data found''"
    using stock_chart_failures [of 200 _ "\<lparr>chart = Some \<lparr>result = Some [\<lparr>meta = None,
         timestamp = None, indicators = Some \<lparr>quote = Some []\<rparr>\<rparr>]\<rparr>\<rparr>"
        "\<lparr>result = Some [\<lparr>meta = None, timestamp = None, indicators = Some \<lparr>quote = Some []\<rparr>\<rparr>]\<rparr>"
        "\<lparr>meta = None, timestamp = None, indicators = Some \<lparr>quote = Some []\<rparr>\<rparr>" "[]"
        "\<lparr>quote = Some []\<rparr>"]
    by (simp add: response_ok_def)
  from a b c d show ?thesis by simp
qed

text \<open>
  Claim C6 as stated fails: a response with status 503 is answered with 500, not with 404.
\<close>

theorem stock_chart_bad_status_counterexample:
  "stock_chart (Responded 503 (Inr \<lparr>chart = None\<rparr>)) = Sent500 (Error ''HTTP error! status: 503'')
   \<and> reply_code (stock_chart (Responded 503 (Inr \<lparr>chart = None\<rparr>))) \<noteq> 404"
  by (simp add: stock_chart_def first_result_def response_ok_def nat_to_string.simps digit_char_def)

subsection \<open>C7: the futures symbol\<close>

text \<open>
  Claim C7: the futures handler queries upstream with the symbol followed by \<open>USDT\<close>
  exactly when the symbol is one of BTC, ETH, XRP, BNB, SOL, ADA, DOGE, DOT, and with the
  symbol unchanged otherwise; the symbol it computes is the one in the URL it fetches.
\<close>

theorem futuresSymbol_suffix:
  "(futuresSymbol s = s @ ''USDT'' \<longleftrightarrow>
      s \<in> {''BTC'', ''ETH'', ''XRP'', ''BNB'', ''SOL'', ''ADA'', ''DOGE'', ''DOT''})
   \<and> (futuresSymbol s = s \<longleftrightarrow>
      s \<notin> {''BTC'', ''ETH'', ''XRP'', ''BNB'', ''SOL'', ''ADA'', ''DOGE'', ''DOT''})
   \<and> futures_url s interval limit =
       ''https://fapi.binance.com/fapi/v1/klines?symbol='' @ futuresSymbol s
         @ ''&interval='' @ binanceInterval interval @ ''&limit='' @ limit"
  unfolding futuresSymbol_def futures_url_def member_cryptoFutures by simp

theorem futuresSymbol_suffix_witness:
  "futuresSymbol ''BTC'' = ''BTCUSDT'' \<and> futuresSymbol ''AAPL'' = ''AAPL''
   \<and> futures_url ''BTC'' ''1m'' ''500'' =
       ''https://fapi.binance.com/fapi/v1/klines?symbol=BTCUSDT&interval=1m&limit=500''"
  using futuresSymbol_suffix [of "''BTC''" "''1m''" "''500''"]
    futuresSymbol_suffix [of "''AAPL''" "''1m''" "''500''"]
  by (simp add: binanceInterval_def)

subsection \<open>C8: change and changePercent\<close>

text \<open>
  Claim C8: in every snapshot of the price handler, the change is the price minus the
  previous close, and the change in percent is change / previous close \<times> 100 when the previous
  close is positive and 0 when it is not, so nothing is divided by zero. The previous close
  is the handler's own (\<open>quote_previousClose\<close>): the upstream field when that is a number
  other than 0. For the price 110 and the previous close 100 the change is 10 and the
  change in percent is 10.
\<close>

theorem stock_price_change:
  assumes "response_ok status" "chart data = Some c" "result c = Some (res # rest)"
    and "meta res = Some m" "stock_price now (Responded status (Inr data)) = Sent200 s"
  shows "priceChange s = price s - quote_previousClose m
       \<and> (quote_previousClose m > 0 \<longrightarrow>
            priceChangePercent s = (priceChange s / quote_previousClose m) * 100)
       \<and> (quote_previousClose m \<le> 0 \<longrightarrow> priceChangePercent s = 0)
       \<and> (\<forall>p. previousClose m = Some p \<and> p \<noteq> 0 \<longrightarrow> quote_previousClose m = p)"
proof -
  note f = stock_price_ok [OF assms]
  have "priceChange s = price s - quote_previousClose m"
    by (simp add: f quote_change_def)
  moreover have "quote_previousClose m > 0 \<longrightarrow>
            priceChangePercent s = (priceChange s / quote_previousClose m) * 100"
    by (simp add: f quote_changePercent_def)
  moreover have "quote_previousClose m \<le> 0 \<longrightarrow> priceChangePercent s = 0"
    by (simp add: f quote_changePercent_def)
  ultimately show ?thesis by (simp add: quote_previousClose_given)
qed

theorem stock_price_change_witness:
  "stock_price 0 (Responded 200 (Inr \<lparr>chart = Some \<lparr>result = Some [\<lparr>meta = Some
       \<lparr>regularMarketPrice = Some 110, currentPrice = None, previousClose = Some 100,
        regularMarketTime = None, marketState = None, regularMarketDayHigh = None, dayHigh = None,
        regularMarketDayLow = None, dayLow = None, regularMarketVolume = None, volume = None\<rparr>,
       timestamp = None, indicators = None\<rparr>]\<rparr>\<rparr>))
   = Sent200 \<lparr>price = 110, priceChange = 10, priceChangePercent = 10, high24h = 110,
       low24h = 110, volume24h = 0, marketTime = 0, isMarketOpen = False\<rparr>"
proof -
  let ?m = "\<lparr>regularMarketPrice = Some 110, currentPrice = None, previousClose = Some 100,
        regularMarketTime = None, marketState = None, regularMarketDayHigh = None, dayHigh = None,
        regularMarketDayLow = None, dayLow = None, regularMarketVolume = None, volume = None\<rparr>"
  let ?res = "\<lparr>meta = Some ?m, timestamp = None, indicators = None\<rparr>"
  let ?c = "\<lparr>result = Some [?res]\<rparr>"
  let ?data = "\<lparr>chart = Some ?c\<rparr>"
  obtain s where run: "stock_price 0 (Responded 200 (Inr ?data)) = Sent200 s"
    and rest: "price s = 110" "high24h s = 110" "low24h s = 110" "volume24h s = 0"
      "marketTime s = 0" "isMarketOpen s = False"
    by (simp add: stock_price_def first_result_def response_ok_def quote_marketTime_def
          quote_price_def or_else_def quote_isMarketOpen_def)
  have pc: "quote_previousClose ?m = 100"
    by (simp add: quote_previousClose_def quote_price_def or_else_def)
  from stock_price_change [of 200 ?data ?c ?res "[]" ?m 0 s] run rest(1) pc
  have "priceChange s = 10 \<and> priceChangePercent s = 10"
    by (simp add: response_ok_def)
  with rest have "s = \<lparr>price = 110, priceChange = 10, priceChangePercent = 10, high24h = 110,
       low24h = 110, volume24h = 0, marketTime = 0, isMarketOpen = False\<rparr>"
    by (cases s) simp
  with run show ?thesis by simp
qed

subsection \<open>C9: the checks of updateUserUID\<close>




subsection \<open>C10: a missing previous close\<close>

text \<open>
  Claim C10: when the upstream metadata has no \<^verbatim>\<open>previousClose\<close>, the previous close
  of the price handler is the resolved price itself, and the snapshot has the change 0 and
  the change in percent 0.
\<close>

theorem stock_price_without_previousClose:
  assumes "response_ok status" "chart data = Some c" "result c = Some (res # rest)"
    and "meta res = Some m" "stock_price now (Responded status (Inr data)) = Sent200 s"
    and "previousClose m = None"
  shows "quote_previousClose m = price s \<and> priceChange s = 0 \<and> priceChangePercent s = 0"
proof -
  note f = stock_price_ok [OF assms(1-5)]
  have pc: "quote_previousClose m = quote_price m"
    using assms(6) by (rule quote_previousClose_missing)
  then show ?thesis
    by (simp add: f quote_change_def quote_changePercent_def)
qed

theorem stock_price_without_previousClose_witness:
  "stock_price 0 (Responded 200 (Inr \<lparr>chart = Some \<lparr>result = Some [\<lparr>meta = Some
       \<lparr>regularMarketPrice = Some 110, currentPrice = None, previousClose = None,
        regularMarketTime = None, marketState = None, regularMarketDayHigh = None, dayHigh = None,
        regularMarketDayLow = None, dayLow = None, regularMarketVolume = None, volume = None\<rparr>,
       timestamp = None, indicators = None\<rparr>]\<rparr>\<rparr>))
   = Sent200 \<lparr>price = 110, priceChange = 0, priceChangePercent = 0, high24h = 110,
       low24h = 110, volume24h = 0, marketTime = 0, isMarketOpen = False\<rparr>"
proof -
  let ?m = "\<lparr>regularMarketPrice = Some 110, currentPrice = None, previousClose = None,
        regularMarketTime = None, marketState = None, regularMarketDayHigh = None, dayHigh = None,
        regularMarketDayLow = None, dayLow = None, regularMarketVolume = None, volume = None\<rparr>"
  let ?res = "\<lparr>meta = Some ?m, timestamp = None, indicators = None\<rparr>"
  let ?c = "\<lparr>result = Some [?res]\<rparr>"
  let ?data = "\<lparr>chart = Some ?c\<rparr>"
  obtain s where run: "stock_price 0 (Responded 200 (Inr ?data)) = Sent200 s"
    and rest: "price s = 110" "high24h s = 110" "low24h s = 110" "volume24h s = 0"
      "marketTime s = 0" "isMarketOpen s = False"
    by (simp add: stock_price_def first_result_def response_ok_def quote_marketTime_def
          quote_price_def or_else_def quote_isMarketOpen_def)
  have pc: "quote_previousClose ?m = 110"
    by (simp add: quote_previousClose_def quote_price_def or_else_def)
  from stock_price_without_previousClose [of 200 ?data ?c ?res "[]" ?m 0 s] run rest(1) pc
  have "priceChange s = 0 \<and> priceChangePercent s = 0"
    by (simp add: response_ok_def)
  with rest have "s = \<lparr>price = 110, priceChange = 0, priceChangePercent = 0, high24h = 110,
       low24h = 110, volume24h = 0, marketTime = 0, isMarketOpen = False\<rparr>"
    by (cases s) simp
  with run show ?thesis by simp
qed

end
